theory Spec2Isabelle
  imports Main "HOL-Library.Char_ord" "HOL-Library.List_Lexorder" "HOL-Library.Sublist"
begin

section \<open>Guest pass backend: the visit handlers of server.js\<close>

text \<open>
  The handlers of \<^verbatim>\<open>src/server.js\<close> are modelled as functions from an environment
  (clock, identifiers handed out by the store, and which statements the store rejects)
  and the committed store to a response and the committed store afterwards.

  The module \<^verbatim>\<open>./config/database\<close> and the table definitions are not part of the
  sources. \<^verbatim>\<open>db.query\<close> is taken to be one session of a transactional store: a statement
  either fails (the promise rejects) or acts on the tables as its SQL text says;
  \<^verbatim>\<open>BEGIN\<close> opens a working copy, \<^verbatim>\<open>COMMIT\<close> publishes it, \<^verbatim>\<open>ROLLBACK\<close> drops it.
  Constraints of the tables (types, keys, NOT NULL) are covered by the rejection
  oracle \<open>fails\<close>: a statement that the real store would refuse is one for which
  \<open>fails\<close> holds. The order in which the store sorts text (its collation) is not fixed
  by the sources either and is a parameter, \<open>collation\<close>.
\<close>

subsection \<open>JavaScript values and strings\<close>

text \<open>A value of the parsed JSON body; \<open>JUndefined\<close> is a key that is not there.\<close>

datatype jsval =
    JUndefined
  | JNull
  | JBool bool
  | JNum int
  | JStr string
  | JArr "jsval list"
  | JObj "(string \<times> jsval) list"

text \<open>A scalar field of a request body: not there, \<^verbatim>\<open>null\<close>, or a string.\<close>

datatype field = Absent | Null | Text string

text \<open>node-postgres sends both \<^verbatim>\<open>undefined\<close> and \<^verbatim>\<open>null\<close> as SQL NULL.\<close>

fun to_sql :: "field \<Rightarrow> string option" where
  "to_sql Absent = None"
| "to_sql Null = None"
| "to_sql (Text s) = Some s"

definition is_digit :: "char \<Rightarrow> bool" where
  "is_digit c = (c \<in> set ''0123456789'')"

definition digit_val :: "char \<Rightarrow> nat" where
  "digit_val c = of_char c - 48"

definition digit_char :: "nat \<Rightarrow> char" where
  "digit_char d = ''0123456789'' ! d"

text \<open>\<^verbatim>\<open>String(n)\<close> for a non-negative integer: its decimal digits.\<close>

function to_string :: "nat \<Rightarrow> string" where
  "to_string n = (if n < 10 then [digit_char n] else to_string (n div 10) @ [digit_char (n mod 10)])"
  by pat_completeness auto
termination
  by (relation "measure id") auto

declare to_string.simps [simp del]

text \<open>\<^verbatim>\<open>parseInt\<close> on a string of decimal digits.\<close>

definition parseInt :: "string \<Rightarrow> nat" where
  "parseInt s = fold (\<lambda>c n. 10 * n + digit_val c) s 0"

text \<open>\<^verbatim>\<open>s.padStart(n, c)\<close>: pads on the left up to length n, never truncates.\<close>

definition padStart :: "nat \<Rightarrow> char \<Rightarrow> string \<Rightarrow> string" where
  "padStart n c s = replicate (n - length s) c @ s"

text \<open>\<^verbatim>\<open>lastCode.match(/(\d{6})$/)\<close>: the last six characters, when all are digits.\<close>

definition match6 :: "string \<Rightarrow> string option" where
  "match6 s =
     (let t = drop (length s - 6) s
      in if 6 \<le> length s \<and> list_all is_digit t then Some t else None)"

subsection \<open>Tables\<close>

record visitor_row =
  vr_id :: string
  vr_full_name :: "string option"
  vr_email :: "string option"
  vr_phone :: "string option"
  vr_company :: "string option"
  vr_updated_at :: int

record executive_row =
  ex_id :: string
  ex_user_id :: string
  ex_position :: "string option"
  ex_is_active :: bool

record user_row =
  us_id :: string
  us_full_name :: "string option"
  us_email :: "string option"
  us_department :: "string option"
  us_is_active :: bool

text \<open>
  A row of \<^verbatim>\<open>visits\<close>. Dates are day numbers and times of the clock are milliseconds,
  both in local time; \<open>executive_id\<close> holds the parameter as the handler passed it.
\<close>

record visit_row =
  vis_id :: string
  visit_code :: string
  visitor_id :: string
  executive_id :: jsval
  scheduled_date :: "int option"
  scheduled_time_from :: "string option"
  scheduled_time_to :: "string option"
  purpose_of_visit :: "string option"
  visit_type :: "string option"
  visit_status :: "string option"
  approval_status :: "string option"
  approved_at :: "string option"
  rejection_reason :: "string option"
  actual_checkin_time :: "int option"
  actual_checkout_time :: "int option"
  created_at :: int
  updated_at :: int

record store =
  visitors :: "visitor_row list"
  executives :: "executive_row list"
  users :: "user_row list"
  visits :: "visit_row list"

subsection \<open>Statements, failures and the environment\<close>

text \<open>One constructor for each \<^verbatim>\<open>db.query\<close> call site of the visit handlers.\<close>

datatype stmt =
    SelectLastCode
  | Begin
  | SelectExecutive
  | SelectVisitor
  | UpdateVisitor
  | InsertVisitor
  | InsertVisit
  | Commit
  | SelectComplete
  | Rollback
  | UpdateVisit
  | SelectByCode
  | UpdateCheckin
  | UpdateCheckout

text \<open>
  What a handler's \<^verbatim>\<open>try\<close> block can throw: the explicit \<^verbatim>\<open>new Error('No executives
  found ...')\<close>, a TypeError of the runtime (tagged with the property being read), and a
  rejected statement.
\<close>

datatype thrown =
    NoExecutivesFound
  | TypeError string
  | StoreError stmt

text \<open>
  \<open>collation e a b\<close>: the store sorts \<open>a\<close> at or before \<open>b\<close> in
  \<^verbatim>\<open>ORDER BY visit_code\<close>.
\<close>

record env =
  now :: int
  year :: nat
  fails :: "stmt \<Rightarrow> bool"
  collation :: "string \<Rightarrow> string \<Rightarrow> bool"
  new_visitor_id :: string
  new_visit_id :: string
  new_code :: string

text \<open>\<^verbatim>\<open>await db.query(...)\<close>: rejects, or yields the rows the statement computes.\<close>

definition query :: "env \<Rightarrow> stmt \<Rightarrow> 'a \<Rightarrow> thrown + 'a" where
  "query e s rows = (if fails e s then Inl (StoreError s) else Inr rows)"

text \<open>The JSON sent back: the status and the keys the handlers use.\<close>

record 'a response =
  status :: nat
  success :: "bool option"
  valid :: "bool option"
  error :: "string option"
  details :: "thrown option"
  payload :: "'a option"

definition reply :: "nat \<Rightarrow> 'a response" where
  "reply n = \<lparr>status = n, success = None, valid = None, error = None, details = None,
     payload = None\<rparr>"

subsection \<open>GET /api/visits/generate-code\<close>

text \<open>\<^verbatim>\<open>visit_code LIKE 'GC-<year>-%'\<close>: the pattern has no other wildcard.\<close>

definition code_prefix :: "nat \<Rightarrow> string" where
  "code_prefix y = ''GC-'' @ to_string y @ ''-''"

text \<open>
  \<^verbatim>\<open>ORDER BY visit_code DESC LIMIT 1\<close>: one row that sorts last in the store's order
  \<open>le\<close>, none when there is no row.
\<close>

fun last_code :: "(string \<Rightarrow> string \<Rightarrow> bool) \<Rightarrow> string list \<Rightarrow> string list" where
  "last_code le [] = []"
| "last_code le (c # cs) = [fold (\<lambda>x m. if le m x then x else m) cs c]"

definition codes_of_year :: "store \<Rightarrow> nat \<Rightarrow> string list" where
  "codes_of_year st y = filter (prefix (code_prefix y)) (map visit_code (visits st))"

definition select_last_code :: "env \<Rightarrow> store \<Rightarrow> nat \<Rightarrow> string list" where
  "select_last_code e st y = last_code (collation e) (codes_of_year st y)"

definition next_number :: "string list \<Rightarrow> nat" where
  "next_number rows =
     (case rows of
        [] \<Rightarrow> 1
      | lastCode # _ \<Rightarrow> (case match6 lastCode of None \<Rightarrow> 1 | Some m \<Rightarrow> parseInt m + 1))"

definition format_code :: "nat \<Rightarrow> nat \<Rightarrow> string" where
  "format_code y n = code_prefix y @ padStart 6 (CHR ''0'') (to_string n)"

definition generateCode :: "env \<Rightarrow> store \<Rightarrow> string response" where
  "generateCode e st =
     (case query e SelectLastCode (select_last_code e st (year e)) of
        Inl err \<Rightarrow> (reply 500)\<lparr>error := Some ''Failed to generate visit code''\<rparr>
      | Inr rows \<Rightarrow> (reply 200)\<lparr>payload := Some (format_code (year e) (next_number rows))\<rparr>)"

subsection \<open>GET /api/executives\<close>

text \<open>
  The executives the listing offers: \<^verbatim>\<open>WHERE e.is_active = true AND u.is_active = true\<close>
  over the join with \<^verbatim>\<open>users\<close>. The \<^verbatim>\<open>ORDER BY\<close> is left out: only membership is used.
\<close>

definition active_executives :: "store \<Rightarrow> executive_row list" where
  "active_executives st =
     filter (\<lambda>x. ex_is_active x \<and>
                 list_ex (\<lambda>u. us_id u = ex_user_id x \<and> us_is_active u) (users st))
       (executives st)"

subsection \<open>POST /api/visits\<close>

record visitor_fields =
  vf_name :: field
  vf_email :: field
  vf_phone :: field
  vf_company :: field

text \<open>
  The destructured body. \<open>rq_visitor = None\<close> is a body whose \<^verbatim>\<open>visitor\<close> is missing or
  \<^verbatim>\<open>null\<close>; the date is the day number the store reads from the text.
\<close>

record create_req =
  rq_visitor :: "visitor_fields option"
  rq_executive_id :: jsval
  rq_date :: "int option"
  rq_time_from :: field
  rq_time_to :: field
  rq_purpose :: field
  rq_visit_type :: field

text \<open>The joined row of the final \<^verbatim>\<open>SELECT v.*, ...\<close>.\<close>

record full_visit =
  fv_visit :: visit_row
  fv_visitor_name :: "string option"
  fv_visitor_email :: "string option"
  fv_visitor_phone :: "string option"
  fv_visitor_company :: "string option"
  fv_executive_name :: "string option"
  fv_executive_department :: "string option"

text \<open>
  \<^verbatim>\<open>typeof executive_id === 'number' || !executive_id.includes('-')\<close>. A number short-cuts;
  a string and an array have an \<^verbatim>\<open>includes\<close> method; on \<^verbatim>\<open>undefined\<close> and \<^verbatim>\<open>null\<close> the
  property read throws, on a boolean and an object \<^verbatim>\<open>includes\<close> is not a function.
\<close>

fun is_legacy_id :: "jsval \<Rightarrow> thrown + bool" where
  "is_legacy_id (JNum n) = Inr True"
| "is_legacy_id (JStr s) = Inr (CHR ''-'' \<notin> set s)"
| "is_legacy_id (JArr xs) = Inr (JStr ''-'' \<notin> set xs)"
| "is_legacy_id JUndefined = Inl (TypeError ''includes'')"
| "is_legacy_id JNull = Inl (TypeError ''includes'')"
| "is_legacy_id (JBool b) = Inl (TypeError ''includes'')"
| "is_legacy_id (JObj kvs) = Inl (TypeError ''includes'')"

text \<open>\<^verbatim>\<open>SELECT id FROM executives LIMIT 1\<close> and the replacement of the id.\<close>

definition normalize_executive :: "env \<Rightarrow> store \<Rightarrow> jsval \<Rightarrow> thrown + jsval" where
  "normalize_executive e w x =
     (case is_legacy_id x of
        Inl err \<Rightarrow> Inl err
      | Inr False \<Rightarrow> Inr x
      | Inr True \<Rightarrow>
          (case query e SelectExecutive (take 1 (executives w)) of
             Inl err \<Rightarrow> Inl err
           | Inr [] \<Rightarrow> Inl NoExecutivesFound
           | Inr (r # _) \<Rightarrow> Inr (JStr (ex_id r))))"

text \<open>SQL equality: a NULL on either side matches nothing.\<close>

definition sql_eq :: "string option \<Rightarrow> string option \<Rightarrow> bool" where
  "sql_eq a b = (a \<noteq> None \<and> a = b)"

definition update_visitor :: "env \<Rightarrow> visitor_fields \<Rightarrow> string \<Rightarrow> visitor_row \<Rightarrow> visitor_row" where
  "update_visitor e v i r =
     (if vr_id r = i
      then r\<lparr>vr_full_name := to_sql (vf_name v), vr_email := to_sql (vf_email v),
             vr_company := to_sql (vf_company v), vr_updated_at := now e\<rparr>
      else r)"

definition new_visitor :: "env \<Rightarrow> visitor_fields \<Rightarrow> visitor_row" where
  "new_visitor e v =
     \<lparr>vr_id = new_visitor_id e, vr_full_name = to_sql (vf_name v), vr_email = to_sql (vf_email v),
      vr_phone = to_sql (vf_phone v), vr_company = to_sql (vf_company v), vr_updated_at = now e\<rparr>"

text \<open>Insert or get visitor: the id, and the working copy afterwards.\<close>

definition resolve_visitor ::
  "env \<Rightarrow> store \<Rightarrow> visitor_fields option \<Rightarrow> thrown + (string \<times> store)" where
  "resolve_visitor e w vo =
     (case vo of
        None \<Rightarrow> Inl (TypeError ''phone'')
      | Some v \<Rightarrow>
          (case query e SelectVisitor
                  (filter (\<lambda>r. sql_eq (vr_phone r) (to_sql (vf_phone v))) (visitors w)) of
             Inl err \<Rightarrow> Inl err
           | Inr (r # _) \<Rightarrow>
               (case query e UpdateVisitor () of
                  Inl err \<Rightarrow> Inl err
                | Inr _ \<Rightarrow>
                    Inr (vr_id r, w\<lparr>visitors := map (update_visitor e v (vr_id r)) (visitors w)\<rparr>))
           | Inr [] \<Rightarrow>
               (case query e InsertVisitor () of
                  Inl err \<Rightarrow> Inl err
                | Inr _ \<Rightarrow>
                    Inr (new_visitor_id e, w\<lparr>visitors := visitors w @ [new_visitor e v]\<rparr>))))"

text \<open>
  The row of the \<^verbatim>\<open>INSERT INTO visits\<close>: the status is the literal \<^verbatim>\<open>'scheduled'\<close>, the
  approval the constant \<^verbatim>\<open>'pending'\<close>; the code, the id and the remaining columns come
  from the store. The default \<^verbatim>\<open>visit_type = 'scheduled'\<close> of the destructuring applies to
  a missing key only.
\<close>

definition new_visit :: "env \<Rightarrow> create_req \<Rightarrow> string \<Rightarrow> jsval \<Rightarrow> visit_row" where
  "new_visit e rq vid x =
     \<lparr>vis_id = new_visit_id e, visit_code = new_code e, visitor_id = vid, executive_id = x,
      scheduled_date = rq_date rq,
      scheduled_time_from = to_sql (rq_time_from rq),
      scheduled_time_to = to_sql (rq_time_to rq),
      purpose_of_visit = to_sql (rq_purpose rq),
      visit_type = (case rq_visit_type rq of Absent \<Rightarrow> Some ''scheduled'' | f \<Rightarrow> to_sql f),
      visit_status = Some ''scheduled'',
      approval_status = Some ''pending'',
      approved_at = None, rejection_reason = None,
      actual_checkin_time = None, actual_checkout_time = None,
      created_at = now e, updated_at = now e\<rparr>"

text \<open>From \<^verbatim>\<open>BEGIN\<close> to \<^verbatim>\<open>COMMIT\<close>: the inserted row and the store that was committed.\<close>

definition create_txn :: "env \<Rightarrow> store \<Rightarrow> create_req \<Rightarrow> thrown + (visit_row \<times> store)" where
  "create_txn e st rq =
     (case query e Begin () of
        Inl err \<Rightarrow> Inl err
      | Inr _ \<Rightarrow>
     (case normalize_executive e st (rq_executive_id rq) of
        Inl err \<Rightarrow> Inl err
      | Inr x \<Rightarrow>
     (case resolve_visitor e st (rq_visitor rq) of
        Inl err \<Rightarrow> Inl err
      | Inr (vid, w) \<Rightarrow>
     (case query e InsertVisit (new_visit e rq vid x) of
        Inl err \<Rightarrow> Inl err
      | Inr row \<Rightarrow>
     (case query e Commit () of
        Inl err \<Rightarrow> Inl err
      | Inr _ \<Rightarrow> Inr (row, w\<lparr>visits := visits w @ [row]\<rparr>))))))"

text \<open>The rows of \<^verbatim>\<open>visits JOIN visitors JOIN executives JOIN users\<close> for one visit.\<close>

definition join_visit :: "store \<Rightarrow> visit_row \<Rightarrow> (visit_row \<times> visitor_row \<times> executive_row \<times> user_row) list" where
  "join_visit st v =
     concat (map (\<lambda>p.
       concat (map (\<lambda>x.
         map (\<lambda>u. (v, p, x, u))
           (filter (\<lambda>u. ex_user_id x = us_id u) (users st)))
         (filter (\<lambda>x. executive_id v = JStr (ex_id x)) (executives st))))
       (filter (\<lambda>p. visitor_id v = vr_id p) (visitors st)))"

definition to_full_visit :: "visit_row \<times> visitor_row \<times> executive_row \<times> user_row \<Rightarrow> full_visit" where
  "to_full_visit j =
     (case j of (v, p, x, u) \<Rightarrow>
        \<lparr>fv_visit = v, fv_visitor_name = vr_full_name p, fv_visitor_email = vr_email p,
         fv_visitor_phone = vr_phone p, fv_visitor_company = vr_company p,
         fv_executive_name = us_full_name u, fv_executive_department = us_department u\<rparr>)"

text \<open>
  The read after the commit. \<^verbatim>\<open>completeVisit.rows[0].visit_code\<close> is read for the log
  line, which throws when the join is empty.
\<close>

definition read_back :: "env \<Rightarrow> store \<Rightarrow> string \<Rightarrow> thrown + full_visit" where
  "read_back e st i =
     (case query e SelectComplete
             (concat (map (join_visit st) (filter (\<lambda>v. vis_id v = i) (visits st)))) of
        Inl err \<Rightarrow> Inl err
      | Inr [] \<Rightarrow> Inl (TypeError ''visit_code'')
      | Inr (j # _) \<Rightarrow> Inr (to_full_visit j))"

text \<open>
  The \<^verbatim>\<open>catch\<close> block: \<^verbatim>\<open>ROLLBACK\<close>, then the 500. When the rollback itself is rejected
  the handler's promise rejects and nothing is sent (\<open>None\<close>); the store keeps what was
  committed either way.
\<close>

definition create_failed ::
  "env \<Rightarrow> thrown \<Rightarrow> store \<Rightarrow> full_visit response option \<times> store" where
  "create_failed e err committed =
     (case query e Rollback () of
        Inl _ \<Rightarrow> (None, committed)
      | Inr _ \<Rightarrow>
          (Some ((reply 500)\<lparr>error := Some ''Failed to create visit'', details := Some err\<rparr>),
           committed))"

definition createVisit ::
  "env \<Rightarrow> store \<Rightarrow> create_req \<Rightarrow> full_visit response option \<times> store" where
  "createVisit e st rq =
     (case create_txn e st rq of
        Inl err \<Rightarrow> create_failed e err st
      | Inr (row, st') \<Rightarrow>
          (case read_back e st' (vis_id row) of
             Inl err \<Rightarrow> create_failed e err st'
           | Inr fv \<Rightarrow> (Some ((reply 201)\<lparr>success := Some True, payload := Some fv\<rparr>), st')))"

subsection \<open>PUT /api/visits/:id\<close>

datatype column = ApprovalStatus | ApprovedAt | VisitStatus | RejectionReason

text \<open>The body: every key that is not there reads as \<open>Absent\<close>.\<close>

type_synonym body = "string \<Rightarrow> field"

text \<open>The body read off the key-value pairs of a JSON object.\<close>

definition body_of :: "(string \<times> field) list \<Rightarrow> body" where
  "body_of kvs k = (case map_of kvs k of None \<Rightarrow> Absent | Some f \<Rightarrow> f)"

definition provided :: "body \<Rightarrow> string \<Rightarrow> column \<Rightarrow> (column \<times> string option) list" where
  "provided b k c = (if b k \<noteq> Absent then [(c, to_sql (b k))] else [])"

text \<open>The \<^verbatim>\<open>fields\<close> and \<^verbatim>\<open>values\<close> arrays, before \<^verbatim>\<open>updated_at\<close> and the id are pushed.\<close>

definition update_fields :: "body \<Rightarrow> (column \<times> string option) list" where
  "update_fields b =
     provided b ''approval'' ApprovalStatus @
     provided b ''approvedAt'' ApprovedAt @
     provided b ''status'' VisitStatus @
     provided b ''rejection_reason'' RejectionReason"

fun set_column :: "column \<times> string option \<Rightarrow> visit_row \<Rightarrow> visit_row" where
  "set_column (ApprovalStatus, x) v = v\<lparr>approval_status := x\<rparr>"
| "set_column (ApprovedAt, x) v = v\<lparr>approved_at := x\<rparr>"
| "set_column (VisitStatus, x) v = v\<lparr>visit_status := x\<rparr>"
| "set_column (RejectionReason, x) v = v\<lparr>rejection_reason := x\<rparr>"

text \<open>\<^verbatim>\<open>UPDATE visits SET <fields>, updated_at = NOW() WHERE id = $n\<close> on one row.\<close>

definition apply_update :: "env \<Rightarrow> (column \<times> string option) list \<Rightarrow> string \<Rightarrow> visit_row \<Rightarrow> visit_row" where
  "apply_update e fs i v =
     (if vis_id v = i then (fold set_column fs v)\<lparr>updated_at := now e\<rparr> else v)"

definition updateVisit :: "env \<Rightarrow> store \<Rightarrow> string \<Rightarrow> body \<Rightarrow> visit_row response \<times> store" where
  "updateVisit e st i b =
     (let fs = update_fields b
      in if fs = [] then ((reply 400)\<lparr>error := Some ''No valid fields to update''\<rparr>, st)
         else
           (case query e UpdateVisit (map (apply_update e fs i) (visits st)) of
              Inl err \<Rightarrow>
                ((reply 500)\<lparr>error := Some ''Update failed'', details := Some err\<rparr>, st)
            | Inr vs \<Rightarrow>
                (case filter (\<lambda>v. vis_id v = i) vs of
                   [] \<Rightarrow> ((reply 404)\<lparr>error := Some ''Visit not found''\<rparr>, st\<lparr>visits := vs\<rparr>)
                 | r # _ \<Rightarrow>
                     ((reply 200)\<lparr>success := Some True, payload := Some r\<rparr>,
                      st\<lparr>visits := vs\<rparr>))))"

subsection \<open>POST /api/visits/validate\<close>








subsection \<open>POST /api/visits/:id/checkin and /checkout\<close>

definition set_checkin :: "env \<Rightarrow> string \<Rightarrow> visit_row \<Rightarrow> visit_row" where
  "set_checkin e i v =
     (if vis_id v = i
      then v\<lparr>visit_status := Some ''checked_in'', actual_checkin_time := Some (now e)\<rparr>
      else v)"

definition checkIn :: "env \<Rightarrow> store \<Rightarrow> string \<Rightarrow> visit_row response \<times> store" where
  "checkIn e st i =
     (case query e UpdateCheckin (map (set_checkin e i) (visits st)) of
        Inl err \<Rightarrow> ((reply 500)\<lparr>error := Some ''Check-in failed''\<rparr>, st)
      | Inr vs \<Rightarrow>
          (case filter (\<lambda>v. vis_id v = i) vs of
             [] \<Rightarrow> ((reply 404)\<lparr>error := Some ''Visit not found''\<rparr>, st\<lparr>visits := vs\<rparr>)
           | r # _ \<Rightarrow>
               ((reply 200)\<lparr>success := Some True, payload := Some r\<rparr>, st\<lparr>visits := vs\<rparr>)))"

definition set_checkout :: "env \<Rightarrow> string \<Rightarrow> visit_row \<Rightarrow> visit_row" where
  "set_checkout e i v =
     (if vis_id v = i
      then v\<lparr>visit_status := Some ''checked_out'', actual_checkout_time := Some (now e)\<rparr>
      else v)"

definition checkOut :: "env \<Rightarrow> store \<Rightarrow> string \<Rightarrow> visit_row response \<times> store" where
  "checkOut e st i =
     (case query e UpdateCheckout (map (set_checkout e i) (visits st)) of
        Inl err \<Rightarrow> ((reply 500)\<lparr>error := Some ''Check-out failed''\<rparr>, st)
      | Inr vs \<Rightarrow>
          (case filter (\<lambda>v. vis_id v = i) vs of
             [] \<Rightarrow> ((reply 404)\<lparr>error := Some ''Visit not found''\<rparr>, st\<lparr>visits := vs\<rparr>)
           | r # _ \<Rightarrow>
               ((reply 200)\<lparr>success := Some True, payload := Some r\<rparr>, st\<lparr>visits := vs\<rparr>)))"

subsection \<open>Sample data\<close>

text \<open>
  A small store for the concrete evaluations below: one user, one executive hosted by
  that user, one visitor, and the visits given. Day 20200 is a day of 2025. The sample
  store rejects nothing and sorts text by character code; \<open>sample_env_rejecting s\<close> is
  the same store rejecting the one statement \<open>s\<close>.
\<close>

definition sample_env :: env where
  "sample_env =
     \<lparr>now = 20200 * 86400000 + 43200000, year = 2025, fails = (\<lambda>s. False),
      collation = (\<lambda>a b. a \<le> b),
      new_visitor_id = ''p-2'', new_visit_id = ''v-2'', new_code = ''GC-2025-000008''\<rparr>"

definition sample_env_rejecting :: "stmt \<Rightarrow> env" where
  "sample_env_rejecting s0 = sample_env\<lparr>fails := (\<lambda>s. s = s0)\<rparr>"

definition sample_user :: user_row where
  "sample_user =
     \<lparr>us_id = ''u-1'', us_full_name = Some ''Host'', us_email = None,
      us_department = Some ''Sales'', us_is_active = True\<rparr>"

definition sample_executive :: "bool \<Rightarrow> executive_row" where
  "sample_executive a =
     \<lparr>ex_id = ''e-1'', ex_user_id = ''u-1'', ex_position = None, ex_is_active = a\<rparr>"

definition sample_visitor :: visitor_row where
  "sample_visitor =
     \<lparr>vr_id = ''p-1'', vr_full_name = Some ''Ada'', vr_email = None, vr_phone = Some ''0300'',
      vr_company = None, vr_updated_at = 0\<rparr>"

definition sample_visit :: "string \<Rightarrow> int \<Rightarrow> string \<Rightarrow> visit_row" where
  "sample_visit c d s =
     \<lparr>vis_id = ''v-1'', visit_code = c, visitor_id = ''p-1'', executive_id = JStr ''e-1'',
      scheduled_date = Some d, scheduled_time_from = None, scheduled_time_to = None,
      purpose_of_visit = None, visit_type = Some ''scheduled'', visit_status = Some s,
      approval_status = Some ''pending'', approved_at = None, rejection_reason = None,
      actual_checkin_time = None, actual_checkout_time = None, created_at = 0, updated_at = 0\<rparr>"

definition sample_store :: "bool \<Rightarrow> visit_row list \<Rightarrow> store" where
  "sample_store a vs =
     \<lparr>visitors = [sample_visitor], executives = [sample_executive a], users = [sample_user],
      visits = vs\<rparr>"

definition sample_req :: "visitor_fields option \<Rightarrow> jsval \<Rightarrow> field \<Rightarrow> create_req" where
  "sample_req v x t =
     \<lparr>rq_visitor = v, rq_executive_id = x, rq_date = Some 20200, rq_time_from = Absent,
      rq_time_to = Absent, rq_purpose = Text ''Meeting'', rq_visit_type = t\<rparr>"

definition sample_fields :: "field \<Rightarrow> visitor_fields" where
  "sample_fields n = \<lparr>vf_name = n, vf_email = Absent, vf_phone = Text ''0301'', vf_company = Absent\<rparr>"

section \<open>Properties\<close>

subsection \<open>Decimal strings and the last code\<close>

















subsection \<open>The code generator\<close>



text \<open>
  Past 999999 nothing is checked: \<^verbatim>\<open>padStart\<close> has nothing to pad and the suffix has
  seven digits.
\<close>

lemma generateCode_after_999999:
  "generateCode sample_env
     (sample_store True [sample_visit ''GC-2025-999999'' 20200 ''scheduled''])
   = (reply 200)\<lparr>payload := Some ''GC-2025-1000000''\<rparr>"
  by (simp add: generateCode_def query_def sample_env_def sample_store_def sample_visit_def
      select_last_code_def codes_of_year_def code_prefix_def next_number_def match6_def
      is_digit_def parseInt_def digit_val_def format_code_def padStart_def to_string.simps
      digit_char_def)

subsection \<open>The gate validator\<close>











subsection \<open>Creating a visit\<close>

lemma create_failed_cases:
  "create_failed e err s = (if fails e Rollback then (None, s)
     else (Some ((reply 500)\<lparr>error := Some ''Failed to create visit'', details := Some err\<rparr>), s))"
  by (simp add: create_failed_def query_def)

lemma resolve_visitor_frame:
  "resolve_visitor e w vo = Inr (vid, w') \<Longrightarrow>
     visits w' = visits w \<and> executives w' = executives w \<and> users w' = users w
     \<and> vid \<in> vr_id ` set (visitors w')"
  by (auto simp: resolve_visitor_def query_def update_visitor_def new_visitor_def filter_eq_Cons_iff
      split: option.splits if_splits list.splits)

lemma create_txn_Inr:
  "create_txn e st rq = Inr (row, st') \<Longrightarrow>
     \<exists>x vid w. normalize_executive e st (rq_executive_id rq) = Inr x
       \<and> resolve_visitor e st (rq_visitor rq) = Inr (vid, w)
       \<and> row = new_visit e rq vid x \<and> st' = w\<lparr>visits := visits w @ [row]\<rparr>"
  by (auto simp: create_txn_def query_def split: if_splits sum.splits prod.splits)

lemma resolve_visitor_ok:
  "\<not> fails e SelectVisitor \<Longrightarrow> \<not> fails e UpdateVisitor \<Longrightarrow> \<not> fails e InsertVisitor \<Longrightarrow>
     \<exists>vid w. resolve_visitor e st (Some v) = Inr (vid, w)"
  by (simp add: resolve_visitor_def query_def split: list.splits)

lemma join_visit_nonempty:
  assumes "visitor_id row \<in> vr_id ` set (visitors s)"
    and "executive_id row = JStr (ex_id x)" and "x \<in> set (executives s)"
    and "list_ex (\<lambda>u. ex_user_id x = us_id u) (users s)"
  shows "join_visit s row \<noteq> []"
proof -
  from assms(1) obtain p where p: "p \<in> set (visitors s)" "visitor_id row = vr_id p" by auto
  from assms(4) obtain u where u: "u \<in> set (users s)" "ex_user_id x = us_id u"
    by (auto simp: list_ex_iff)
  have "(row, p, x, u) \<in> set (join_visit s row)"
    using p u assms(2,3) by (auto simp: join_visit_def)
  then show ?thesis by auto
qed

lemma create_succeeds:
  assumes ok: "\<forall>s. \<not> fails e s"
    and v: "rq_visitor rq = Some v"
    and n: "normalize_executive e st (rq_executive_id rq) = Inr (JStr (ex_id x))"
    and x: "x \<in> set (executives st)"
    and u: "list_ex (\<lambda>u. ex_user_id x = us_id u) (users st)"
    and fresh: "new_visit_id e \<notin> vis_id ` set (visits st)"
  shows "\<exists>r st' vid. createVisit e st rq = (Some r, st') \<and> status r = 201
           \<and> visits st' = visits st @ [new_visit e rq vid (JStr (ex_id x))]"
proof -
  from resolve_visitor_ok [of e st v] ok obtain vid w where
    w: "resolve_visitor e st (Some v) = Inr (vid, w)" by blast
  note fr = resolve_visitor_frame [OF w]
  let ?row = "new_visit e rq vid (JStr (ex_id x))"
  let ?s = "w\<lparr>visits := visits w @ [?row]\<rparr>"
  have txn: "create_txn e st rq = Inr (?row, ?s)"
    using ok v n w by (simp add: create_txn_def query_def)
  have sel: "filter (\<lambda>r. vis_id r = vis_id ?row) (visits ?s) = [?row]"
    using fresh fr by (force simp: new_visit_def filter_empty_conv)
  have "join_visit ?s ?row \<noteq> []"
    by (rule join_visit_nonempty [where x = x]) (use fr x u in \<open>simp_all add: new_visit_def\<close>)
  then obtain j js where j: "join_visit ?s ?row = j # js" by (cases "join_visit ?s ?row") auto
  have rb: "read_back e ?s (vis_id ?row) = Inr (to_full_visit j)"
    unfolding read_back_def sel using ok j by (simp add: query_def)
  have "createVisit e st rq
      = (Some ((reply 201)\<lparr>success := Some True, payload := Some (to_full_visit j)\<rparr>), ?s)"
    unfolding createVisit_def txn using rb by simp
  moreover have "status ((reply 201)\<lparr>success := Some True, payload := Some (to_full_visit j)\<rparr>
      :: full_visit response) = 201"
    by (simp add: reply_def)
  moreover have "visits ?s = visits st @ [?row]" using fr by simp
  ultimately show ?thesis by blast
qed

lemma resolve_visitor_cong:
  assumes "to_sql (vf_name v) = to_sql (vf_name v')" "to_sql (vf_email v) = to_sql (vf_email v')"
    "to_sql (vf_phone v) = to_sql (vf_phone v')" "to_sql (vf_company v) = to_sql (vf_company v')"
  shows "resolve_visitor e st (Some v) = resolve_visitor e st (Some v')"
proof -
  have u: "update_visitor e v = update_visitor e v'"
    using assms by (intro ext) (simp add: update_visitor_def)
  have n: "new_visitor e v = new_visitor e v'"
    using assms by (simp add: new_visitor_def)
  show ?thesis
    by (simp only: resolve_visitor_def option.case u n assms(3))
qed

lemma new_visit_visitor: "new_visit e (rq\<lparr>rq_visitor := vo\<rparr>) vid x = new_visit e rq vid x"
  by (simp add: new_visit_def)

text \<open>
  A failure between \<^verbatim>\<open>BEGIN\<close> and \<^verbatim>\<open>COMMIT\<close>, the commit included, leaves the
  committed store as it was.
\<close>

lemma createVisit_failure_before_commit:
  "create_txn e st rq = Inl err \<Longrightarrow> snd (createVisit e st rq) = st"
  by (simp add: createVisit_def create_failed_cases)

text \<open>
  C3. Whenever createVisit answers 201, the committed visits are the former ones followed
  by one new row, and that row has \<^verbatim>\<open>visit_status = 'scheduled'\<close> and
  \<^verbatim>\<open>approval_status = 'pending'\<close>, whatever the visit type of the request.
\<close>

theorem createVisit_initial_state:
  assumes "createVisit e st rq = (Some r, st')" and "status r = 201"
  shows "\<exists>row. visits st' = visits st @ [row]
           \<and> visit_status row = Some ''scheduled'' \<and> approval_status row = Some ''pending''"
proof (cases "create_txn e st rq")
  case (Inl err)
  with assms show ?thesis
    by (auto simp: createVisit_def create_failed_cases reply_def split: if_splits)
next
  case (Inr p)
  obtain row s where p: "p = (row, s)" by (cases p)
  from create_txn_Inr [OF Inr [unfolded p]] obtain x vid w where
    w: "resolve_visitor e st (rq_visitor rq) = Inr (vid, w)"
    and row: "row = new_visit e rq vid x" and s: "s = w\<lparr>visits := visits w @ [row]\<rparr>"
    by blast
  have "st' = s"
    using assms Inr p
    by (auto simp: createVisit_def create_failed_cases reply_def split: if_splits sum.splits)
  with s resolve_visitor_frame [OF w] row show ?thesis
    by (simp add: new_visit_def)
qed

text \<open>
  The instance: a walk-in request on the sample store is answered 201, and the row it
  inserts is a walk-in that is scheduled and pending.
\<close>

theorem createVisit_initial_state_witness:
  "createVisit sample_env (sample_store True [])
       (sample_req (Some (sample_fields (Text ''Bob''))) (JStr ''e-1'') (Text ''walk-in''))
     = (Some (the (fst (createVisit sample_env (sample_store True [])
                (sample_req (Some (sample_fields (Text ''Bob''))) (JStr ''e-1'') (Text ''walk-in''))))),
        snd (createVisit sample_env (sample_store True [])
                (sample_req (Some (sample_fields (Text ''Bob''))) (JStr ''e-1'') (Text ''walk-in''))))
   \<and> status (the (fst (createVisit sample_env (sample_store True [])
                (sample_req (Some (sample_fields (Text ''Bob''))) (JStr ''e-1'') (Text ''walk-in''))))) = 201
   \<and> map visit_type (visits (snd (createVisit sample_env (sample_store True [])
                (sample_req (Some (sample_fields (Text ''Bob''))) (JStr ''e-1'') (Text ''walk-in'')))))
       = [Some ''walk-in'']
   \<and> (\<exists>row. visits (snd (createVisit sample_env (sample_store True [])
                (sample_req (Some (sample_fields (Text ''Bob''))) (JStr ''e-1'') (Text ''walk-in''))))
            = visits (sample_store True []) @ [row]
          \<and> visit_status row = Some ''scheduled'' \<and> approval_status row = Some ''pending'')"
proof -
  let ?c = "createVisit sample_env (sample_store True [])
       (sample_req (Some (sample_fields (Text ''Bob''))) (JStr ''e-1'') (Text ''walk-in''))"
  have some: "fst ?c \<noteq> None" by code_simp
  then have h1: "?c = (Some (the (fst ?c)), snd ?c)" by (cases ?c) auto
  have h2: "status (the (fst ?c)) = 201" by code_simp
  have ty: "map visit_type (visits (snd ?c)) = [Some ''walk-in'']" by code_simp
  from createVisit_initial_state [OF h1 h2] h1 h2 ty show ?thesis by blast
qed

text \<open>
  C4 (the code at the failing input). The final \<^verbatim>\<open>SELECT\<close> runs after \<^verbatim>\<open>COMMIT\<close> but
  inside the same \<^verbatim>\<open>try\<close>. When the store rejects it, the handler runs \<^verbatim>\<open>ROLLBACK\<close>,
  which has nothing left to undo, and answers 500 "Failed to create visit": the new
  visitor and the new visit stay committed in a store that had no visit before.
\<close>

theorem createVisit_read_failure_persists:
  "fst (createVisit (sample_env\<lparr>fails := (\<lambda>s. s = SelectComplete)\<rparr>) (sample_store True [])
          (sample_req (Some (sample_fields (Text ''Bob''))) (JStr ''e-1'') Absent))
     = Some ((reply 500)\<lparr>error := Some ''Failed to create visit'',
               details := Some (StoreError SelectComplete)\<rparr>)
   \<and> map visit_code (visits (snd (createVisit (sample_env\<lparr>fails := (\<lambda>s. s = SelectComplete)\<rparr>)
          (sample_store True [])
          (sample_req (Some (sample_fields (Text ''Bob''))) (JStr ''e-1'') Absent))))
     = [''GC-2025-000008'']
   \<and> map vr_id (visitors (snd (createVisit (sample_env\<lparr>fails := (\<lambda>s. s = SelectComplete)\<rparr>)
          (sample_store True [])
          (sample_req (Some (sample_fields (Text ''Bob''))) (JStr ''e-1'') Absent))))
     = [''p-1'', ''p-2'']
   \<and> visits (sample_store True []) = []"
  by code_simp

text \<open>
  C5 (as stated, refuted). The only executive of the store is inactive, so the listing
  of active executives is empty; a request with the legacy id 5 is nevertheless answered
  201 and the visit is hosted by that inactive executive.
\<close>

theorem createVisit_inactive_executive_counterexample:
  "active_executives (sample_store False []) = []
   \<and> map_option status (fst (createVisit sample_env (sample_store False [])
          (sample_req (Some (sample_fields (Text ''Bob''))) (JNum 5) Absent))) = Some 201
   \<and> map executive_id (visits (snd (createVisit sample_env (sample_store False [])
          (sample_req (Some (sample_fields (Text ''Bob''))) (JNum 5) Absent))))
     = [JStr (ex_id (sample_executive False))]
   \<and> ex_is_active (sample_executive False) = False"
  by code_simp

text \<open>
  C5 (amended). For a request whose executive id is a number, a string without
  \<^verbatim>\<open>-\<close> or an array without the element \<^verbatim>\<open>'-'\<close>, on a store that rejects no statement:
  if the executives table is empty, createVisit answers 500 "Failed to create visit" with
  the detail "No executives found" and leaves the store as it was; if the table has a
  first row whose user exists, the visitor object is present and the visit id is fresh,
  createVisit answers 201 and the inserted visit is hosted by that first row, active or
  not.
\<close>

theorem createVisit_legacy_executive:
  assumes "is_legacy_id (rq_executive_id rq) = Inr True" and "\<forall>s. \<not> fails e s"
  shows "(executives st = [] \<longrightarrow>
            createVisit e st rq
              = (Some ((reply 500)\<lparr>error := Some ''Failed to create visit'',
                         details := Some NoExecutivesFound\<rparr>), st))
       \<and> (\<forall>x xs v. executives st = x # xs \<and> rq_visitor rq = Some v
              \<and> list_ex (\<lambda>u. ex_user_id x = us_id u) (users st)
              \<and> new_visit_id e \<notin> vis_id ` set (visits st) \<longrightarrow>
            (\<exists>r st' vid. createVisit e st rq = (Some r, st') \<and> status r = 201
               \<and> visits st' = visits st @ [new_visit e rq vid (JStr (ex_id x))]))"
proof (intro conjI allI impI)
  assume "executives st = []"
  with assms have "create_txn e st rq = Inl NoExecutivesFound"
    by (simp add: create_txn_def normalize_executive_def query_def)
  with assms(2) show "createVisit e st rq
              = (Some ((reply 500)\<lparr>error := Some ''Failed to create visit'',
                         details := Some NoExecutivesFound\<rparr>), st)"
    by (simp add: createVisit_def create_failed_cases)
next
  fix x xs v
  assume a: "executives st = x # xs \<and> rq_visitor rq = Some v
              \<and> list_ex (\<lambda>u. ex_user_id x = us_id u) (users st)
              \<and> new_visit_id e \<notin> vis_id ` set (visits st)"
  with assms have n: "normalize_executive e st (rq_executive_id rq) = Inr (JStr (ex_id x))"
    by (simp add: normalize_executive_def query_def)
  from a have "x \<in> set (executives st)" by simp
  with create_succeeds [OF assms(2) _ n] a
  show "\<exists>r st' vid. createVisit e st rq = (Some r, st') \<and> status r = 201
               \<and> visits st' = visits st @ [new_visit e rq vid (JStr (ex_id x))]"
    by blast
qed

theorem createVisit_legacy_executive_witness:
  "is_legacy_id (rq_executive_id (sample_req (Some (sample_fields (Text ''Bob''))) (JStr ''7'') Absent))
     = Inr True
   \<and> (\<forall>s. \<not> fails sample_env s)
   \<and> executives (sample_store True []) = [sample_executive True] \<and> executives (sample_store True []) \<noteq> []
   \<and> rq_visitor (sample_req (Some (sample_fields (Text ''Bob''))) (JStr ''7'') Absent)
       = Some (sample_fields (Text ''Bob''))
   \<and> list_ex (\<lambda>u. ex_user_id (sample_executive True) = us_id u) (users (sample_store True []))
   \<and> new_visit_id sample_env \<notin> vis_id ` set (visits (sample_store True []))
   \<and> (\<exists>r st' vid. createVisit sample_env (sample_store True [])
            (sample_req (Some (sample_fields (Text ''Bob''))) (JStr ''7'') Absent) = (Some r, st')
          \<and> status r = 201
          \<and> visits st' = visits (sample_store True [])
               @ [new_visit sample_env (sample_req (Some (sample_fields (Text ''Bob''))) (JStr ''7'') Absent)
                    vid (JStr (ex_id (sample_executive True)))])"
proof -
  let ?rq = "sample_req (Some (sample_fields (Text ''Bob''))) (JStr ''7'') Absent"
  have h1: "is_legacy_id (rq_executive_id ?rq) = Inr True"
    by (simp add: sample_req_def)
  have h2: "\<forall>s. \<not> fails sample_env s"
    by (simp add: sample_env_def)
  have g: "executives (sample_store True []) = [sample_executive True]
      \<and> rq_visitor ?rq = Some (sample_fields (Text ''Bob''))
      \<and> list_ex (\<lambda>u. ex_user_id (sample_executive True) = us_id u) (users (sample_store True []))
      \<and> new_visit_id sample_env \<notin> vis_id ` set (visits (sample_store True []))"
    by (simp add: sample_store_def sample_req_def sample_executive_def sample_user_def)
  have ne: "executives (sample_store True []) \<noteq> []"
    by (simp add: sample_store_def)
  from createVisit_legacy_executive [OF h1 h2, of "sample_store True []"]
  have "\<forall>x xs v. executives (sample_store True []) = x # xs \<and> rq_visitor ?rq = Some v
              \<and> list_ex (\<lambda>u. ex_user_id x = us_id u) (users (sample_store True []))
              \<and> new_visit_id sample_env \<notin> vis_id ` set (visits (sample_store True [])) \<longrightarrow>
            (\<exists>r st' vid. createVisit sample_env (sample_store True []) ?rq = (Some r, st')
               \<and> status r = 201
               \<and> visits st' = visits (sample_store True [])
                    @ [new_visit sample_env ?rq vid (JStr (ex_id x))])"
    by (rule conjunct2)
  from this [rule_format, of "sample_executive True" "[]" "sample_fields (Text ''Bob'')"] g
  have "\<exists>r st' vid. createVisit sample_env (sample_store True []) ?rq = (Some r, st')
               \<and> status r = 201
               \<and> visits st' = visits (sample_store True [])
                    @ [new_visit sample_env ?rq vid (JStr (ex_id (sample_executive True)))]"
    by simp
  with g h1 h2 ne show ?thesis by simp
qed

lemma is_legacy_id_error: "is_legacy_id x = Inl err \<Longrightarrow> err = TypeError ''includes''"
  by (cases x) auto

lemma normalize_executive_error:
  "normalize_executive e st x = Inl err \<Longrightarrow>
     err = TypeError ''includes'' \<or> err = NoExecutivesFound
     \<or> (err = StoreError SelectExecutive \<and> fails e SelectExecutive)"
  by (auto simp: normalize_executive_def query_def
      split: sum.splits bool.splits if_splits list.splits dest: is_legacy_id_error)

lemma resolve_visitor_error:
  "resolve_visitor e st (Some v) = Inl err \<Longrightarrow> \<exists>s. err = StoreError s \<and> fails e s"
  by (auto simp: resolve_visitor_def query_def split: sum.splits if_splits list.splits)

lemma create_txn_error:
  assumes "create_txn e st rq = Inl err" and "rq_visitor rq = Some v"
  shows "err = NoExecutivesFound \<or> err = TypeError ''includes''
       \<or> (\<exists>s. err = StoreError s \<and> fails e s)"
proof (cases "fails e Begin")
  case True
  with assms(1) show ?thesis by (auto simp: create_txn_def query_def)
next
  case False
  show ?thesis
  proof (cases "normalize_executive e st (rq_executive_id rq)")
    case (Inl a)
    with False assms(1) have "err = a" by (simp add: create_txn_def query_def)
    with normalize_executive_error [OF Inl] show ?thesis by blast
  next
    case (Inr x)
    show ?thesis
    proof (cases "resolve_visitor e st (Some v)")
      case (Inl a)
      with False Inr assms have "err = a" by (simp add: create_txn_def query_def)
      with resolve_visitor_error [OF Inl] show ?thesis by blast
    next
      case r: (Inr p)
      with False Inr assms show ?thesis
        by (auto simp: create_txn_def query_def split: prod.splits if_splits)
    qed
  qed
qed

lemma read_back_error:
  "read_back e st i = Inl err \<Longrightarrow>
     err = TypeError ''visit_code'' \<or> (\<exists>s. err = StoreError s \<and> fails e s)"
  by (auto simp: read_back_def query_def split: if_splits list.splits)

lemma createVisit_responses:
  assumes "fst (createVisit e st rq) = Some r"
  shows "status r = 201
       \<or> (status r = 500 \<and> error r = Some ''Failed to create visit''
            \<and> (\<exists>err. details r = Some err
                  \<and> (rq_visitor rq \<noteq> None \<longrightarrow>
                       err = NoExecutivesFound \<or> err = TypeError ''includes''
                       \<or> err = TypeError ''visit_code''
                       \<or> (\<exists>s. err = StoreError s \<and> fails e s))))"
proof (cases "create_txn e st rq")
  case (Inl err)
  with assms have r: "r = (reply 500)\<lparr>error := Some ''Failed to create visit'', details := Some err\<rparr>"
    by (auto simp: createVisit_def create_failed_cases split: if_splits)
  have "rq_visitor rq \<noteq> None \<longrightarrow> err = NoExecutivesFound \<or> err = TypeError ''includes''
      \<or> (\<exists>s. err = StoreError s \<and> fails e s)"
    using create_txn_error [OF Inl] by blast
  then show ?thesis unfolding r by (auto simp: reply_def)
next
  case (Inr p)
  obtain row s where p: "p = (row, s)" by (cases p)
  show ?thesis
  proof (cases "read_back e s (vis_id row)")
    case (Inl err)
    with assms Inr p have r: "r = (reply 500)\<lparr>error := Some ''Failed to create visit'', details := Some err\<rparr>"
      by (auto simp: createVisit_def create_failed_cases split: if_splits)
    from read_back_error [OF Inl] show ?thesis unfolding r by (auto simp: reply_def)
  next
    case r: (Inr fv)
    with assms Inr p show ?thesis by (auto simp: createVisit_def reply_def)
  qed
qed

lemma resolve_visitor_columns:
  assumes "resolve_visitor e st (Some v) = Inr (vid, w)"
  shows "\<exists>p\<in>set (visitors w). vr_id p = vid
           \<and> vr_full_name p = to_sql (vf_name v) \<and> vr_email p = to_sql (vf_email v)
           \<and> vr_phone p = to_sql (vf_phone v) \<and> vr_company p = to_sql (vf_company v)"
proof (cases "filter (\<lambda>r. sql_eq (vr_phone r) (to_sql (vf_phone v))) (visitors st)")
  case Nil
  with assms have "vid = new_visitor_id e" "w = st\<lparr>visitors := visitors st @ [new_visitor e v]\<rparr>"
    by (auto simp: resolve_visitor_def query_def split: if_splits)
  then show ?thesis by (simp add: new_visitor_def)
next
  case (Cons r rs)
  then have "r \<in> set (filter (\<lambda>r. sql_eq (vr_phone r) (to_sql (vf_phone v))) (visitors st))"
    by simp
  then have r: "r \<in> set (visitors st)" "vr_phone r = to_sql (vf_phone v)"
    by (auto simp: sql_eq_def)
  from assms Cons have vw: "vid = vr_id r"
    "w = st\<lparr>visitors := map (update_visitor e v (vr_id r)) (visitors st)\<rparr>"
    by (auto simp: resolve_visitor_def query_def split: if_splits)
  from r(1) have "update_visitor e v (vr_id r) r \<in> set (visitors w)" unfolding vw by simp
  moreover have "vr_id (update_visitor e v (vr_id r) r) = vid"
    "vr_full_name (update_visitor e v (vr_id r) r) = to_sql (vf_name v)"
    "vr_email (update_visitor e v (vr_id r) r) = to_sql (vf_email v)"
    "vr_phone (update_visitor e v (vr_id r) r) = to_sql (vf_phone v)"
    "vr_company (update_visitor e v (vr_id r) r) = to_sql (vf_company v)"
    using r(2) by (simp_all add: update_visitor_def vw)
  ultimately show ?thesis by blast
qed

lemma create_succeeds_full:
  assumes ok: "\<forall>s. \<not> fails e s"
    and v: "rq_visitor rq = Some v"
    and n: "normalize_executive e st (rq_executive_id rq) = Inr (JStr (ex_id x))"
    and x: "x \<in> set (executives st)"
    and u: "list_ex (\<lambda>u. ex_user_id x = us_id u) (users st)"
    and fresh: "new_visit_id e \<notin> vis_id ` set (visits st)"
  shows "\<exists>r st' vid. createVisit e st rq = (Some r, st') \<and> status r = 201
           \<and> visits st' = visits st @ [new_visit e rq vid (JStr (ex_id x))]
           \<and> (\<exists>p\<in>set (visitors st'). vr_id p = vid
                \<and> vr_full_name p = to_sql (vf_name v) \<and> vr_email p = to_sql (vf_email v)
                \<and> vr_phone p = to_sql (vf_phone v) \<and> vr_company p = to_sql (vf_company v))"
proof -
  from resolve_visitor_ok [of e st v] ok obtain vid w where
    w: "resolve_visitor e st (Some v) = Inr (vid, w)" by blast
  note fr = resolve_visitor_frame [OF w]
  let ?row = "new_visit e rq vid (JStr (ex_id x))"
  let ?s = "w\<lparr>visits := visits w @ [?row]\<rparr>"
  have txn: "create_txn e st rq = Inr (?row, ?s)"
    using ok v n w by (simp add: create_txn_def query_def)
  have sel: "filter (\<lambda>r. vis_id r = vis_id ?row) (visits ?s) = [?row]"
    using fresh fr by (force simp: new_visit_def filter_empty_conv)
  have "join_visit ?s ?row \<noteq> []"
    by (rule join_visit_nonempty [where x = x]) (use fr x u in \<open>simp_all add: new_visit_def\<close>)
  then obtain j js where j: "join_visit ?s ?row = j # js" by (cases "join_visit ?s ?row") auto
  have rb: "read_back e ?s (vis_id ?row) = Inr (to_full_visit j)"
    unfolding read_back_def sel using ok j by (simp add: query_def)
  have "createVisit e st rq
      = (Some ((reply 201)\<lparr>success := Some True, payload := Some (to_full_visit j)\<rparr>), ?s)"
    unfolding createVisit_def txn using rb by simp
  moreover have "status ((reply 201)\<lparr>success := Some True, payload := Some (to_full_visit j)\<rparr>
      :: full_visit response) = 201"
    by (simp add: reply_def)
  moreover have "visits ?s = visits st @ [?row]" using fr by simp
  moreover have "\<exists>p\<in>set (visitors ?s). vr_id p = vid
                \<and> vr_full_name p = to_sql (vf_name v) \<and> vr_email p = to_sql (vf_email v)
                \<and> vr_phone p = to_sql (vf_phone v) \<and> vr_company p = to_sql (vf_company v)"
    using resolve_visitor_columns [OF w] by simp
  ultimately show ?thesis by blast
qed

text \<open>
  C7 (as stated, refuted). A visitor object with no name, email, phone or company is
  not rejected by the handler. On a store that accepts the NULLs the call answers 201 and
  the visit and a nameless visitor are committed. On a store that refuses the
  \<^verbatim>\<open>INSERT INTO visitors\<close> the call fails with the store's rejection of that statement,
  the answer every rejected statement gets, and not with a validation error.
\<close>

theorem createVisit_missing_fields_counterexample:
  "map_option status (fst (createVisit sample_env (sample_store True [])
      (sample_req (Some \<lparr>vf_name = Absent, vf_email = Absent, vf_phone = Absent, vf_company = Absent\<rparr>)
         (JStr ''e-1'') Absent))) = Some 201
   \<and> map visit_code (visits (snd (createVisit sample_env (sample_store True [])
      (sample_req (Some \<lparr>vf_name = Absent, vf_email = Absent, vf_phone = Absent, vf_company = Absent\<rparr>)
         (JStr ''e-1'') Absent)))) = [''GC-2025-000008'']
   \<and> map vr_full_name (visitors (snd (createVisit sample_env (sample_store True [])
      (sample_req (Some \<lparr>vf_name = Absent, vf_email = Absent, vf_phone = Absent, vf_company = Absent\<rparr>)
         (JStr ''e-1'') Absent)))) = [Some ''Ada'', None]
   \<and> createVisit (sample_env_rejecting InsertVisitor) (sample_store True [])
      (sample_req (Some \<lparr>vf_name = Absent, vf_email = Absent, vf_phone = Absent, vf_company = Absent\<rparr>)
         (JStr ''e-1'') Absent)
     = (Some ((reply 500)\<lparr>error := Some ''Failed to create visit'',
                details := Some (StoreError InsertVisitor)\<rparr>), sample_store True [])"
  by code_simp

text \<open>
  C7 (amended). createVisit has no validation of visitor fields and no validation error.
  Every answer is 201 or the 500 "Failed to create visit"; when the visitor object is
  present, the detail of a 500 is "No executives found", the TypeError of the executive
  shape test, the TypeError of the read-back, or a statement that the store rejected.
  When the visitor object itself is missing and the rollback is accepted, the answer is
  that 500 with the store as before, the detail being the TypeError of reading
  \<^verbatim>\<open>visitor.phone\<close> once \<^verbatim>\<open>BEGIN\<close> and the executive step went through. When the
  visitor object is present, whatever fields it lacks: if the store rejects no statement,
  the executive step yields the id of an executive row whose user exists, and the visit
  id is fresh, the answer is 201, the visit is committed, and the visitor row of the visit
  holds the given values, NULL for each missing field. Two visitor objects that give the
  same SQL values (a missing field and a \<^verbatim>\<open>null\<close> one both give NULL) give the same
  response and the same store.
\<close>

theorem createVisit_visitor_unchecked:
  "(\<forall>r. fst (createVisit e st rq) = Some r \<longrightarrow>
      status r = 201
      \<or> (status r = 500 \<and> error r = Some ''Failed to create visit''
           \<and> (\<exists>err. details r = Some err
                 \<and> (rq_visitor rq \<noteq> None \<longrightarrow>
                      err = NoExecutivesFound \<or> err = TypeError ''includes''
                      \<or> err = TypeError ''visit_code''
                      \<or> (\<exists>s. err = StoreError s \<and> fails e s)))))
   \<and> (rq_visitor rq = None \<and> \<not> fails e Rollback \<longrightarrow>
      (\<exists>err. createVisit e st rq
          = (Some ((reply 500)\<lparr>error := Some ''Failed to create visit'', details := Some err\<rparr>), st)
        \<and> (\<not> fails e Begin \<and> (\<exists>x. normalize_executive e st (rq_executive_id rq) = Inr x) \<longrightarrow>
             err = TypeError ''phone'')))
   \<and> (\<forall>w x. rq_visitor rq = Some w \<and> (\<forall>s. \<not> fails e s)
         \<and> normalize_executive e st (rq_executive_id rq) = Inr (JStr (ex_id x))
         \<and> x \<in> set (executives st) \<and> list_ex (\<lambda>u. ex_user_id x = us_id u) (users st)
         \<and> new_visit_id e \<notin> vis_id ` set (visits st) \<longrightarrow>
       (\<exists>r st' vid. createVisit e st rq = (Some r, st') \<and> status r = 201
           \<and> visits st' = visits st @ [new_visit e rq vid (JStr (ex_id x))]
           \<and> (\<exists>p\<in>set (visitors st'). vr_id p = vid
                \<and> vr_full_name p = to_sql (vf_name w) \<and> vr_email p = to_sql (vf_email w)
                \<and> vr_phone p = to_sql (vf_phone w) \<and> vr_company p = to_sql (vf_company w))))
   \<and> (to_sql (vf_name v) = to_sql (vf_name v') \<and> to_sql (vf_email v) = to_sql (vf_email v')
        \<and> to_sql (vf_phone v) = to_sql (vf_phone v') \<and> to_sql (vf_company v) = to_sql (vf_company v')
        \<longrightarrow> createVisit e st (rq\<lparr>rq_visitor := Some v\<rparr>) = createVisit e st (rq\<lparr>rq_visitor := Some v'\<rparr>))"
proof (intro conjI allI impI)
  fix r
  assume "fst (createVisit e st rq) = Some r"
  then show "status r = 201
      \<or> (status r = 500 \<and> error r = Some ''Failed to create visit''
           \<and> (\<exists>err. details r = Some err
                 \<and> (rq_visitor rq \<noteq> None \<longrightarrow>
                      err = NoExecutivesFound \<or> err = TypeError ''includes''
                      \<or> err = TypeError ''visit_code''
                      \<or> (\<exists>s. err = StoreError s \<and> fails e s))))"
    by (rule createVisit_responses)
next
  assume a: "rq_visitor rq = None \<and> \<not> fails e Rollback"
  then have r: "resolve_visitor e st (rq_visitor rq) = Inl (TypeError ''phone'')"
    by (simp add: resolve_visitor_def)
  have "\<exists>err. create_txn e st rq = Inl err
      \<and> (\<not> fails e Begin \<and> (\<exists>x. normalize_executive e st (rq_executive_id rq) = Inr x) \<longrightarrow>
             err = TypeError ''phone'')"
    by (auto simp: create_txn_def r query_def split: sum.splits)
  then obtain err where txn: "create_txn e st rq = Inl err"
    and err: "\<not> fails e Begin \<and> (\<exists>x. normalize_executive e st (rq_executive_id rq) = Inr x) \<longrightarrow>
             err = TypeError ''phone''" by blast
  from a txn have "createVisit e st rq
          = (Some ((reply 500)\<lparr>error := Some ''Failed to create visit'', details := Some err\<rparr>), st)"
    by (simp add: createVisit_def create_failed_cases)
  then show "\<exists>err. createVisit e st rq
          = (Some ((reply 500)\<lparr>error := Some ''Failed to create visit'', details := Some err\<rparr>), st)
        \<and> (\<not> fails e Begin \<and> (\<exists>x. normalize_executive e st (rq_executive_id rq) = Inr x) \<longrightarrow>
             err = TypeError ''phone'')"
    using err by (intro exI [of _ err] conjI)
next
  fix w x
  assume a: "rq_visitor rq = Some w \<and> (\<forall>s. \<not> fails e s)
         \<and> normalize_executive e st (rq_executive_id rq) = Inr (JStr (ex_id x))
         \<and> x \<in> set (executives st) \<and> list_ex (\<lambda>u. ex_user_id x = us_id u) (users st)
         \<and> new_visit_id e \<notin> vis_id ` set (visits st)"
  show "\<exists>r st' vid. createVisit e st rq = (Some r, st') \<and> status r = 201
           \<and> visits st' = visits st @ [new_visit e rq vid (JStr (ex_id x))]
           \<and> (\<exists>p\<in>set (visitors st'). vr_id p = vid
                \<and> vr_full_name p = to_sql (vf_name w) \<and> vr_email p = to_sql (vf_email w)
                \<and> vr_phone p = to_sql (vf_phone w) \<and> vr_company p = to_sql (vf_company w))"
    by (rule create_succeeds_full) (use a in blast)+
next
  assume "to_sql (vf_name v) = to_sql (vf_name v') \<and> to_sql (vf_email v) = to_sql (vf_email v')
        \<and> to_sql (vf_phone v) = to_sql (vf_phone v') \<and> to_sql (vf_company v) = to_sql (vf_company v')"
  then have rv: "resolve_visitor e st (Some v) = resolve_visitor e st (Some v')"
    by (intro resolve_visitor_cong) simp_all
  have "create_txn e st (rq\<lparr>rq_visitor := Some v\<rparr>) = create_txn e st (rq\<lparr>rq_visitor := Some v'\<rparr>)"
    using rv by (simp add: create_txn_def new_visit_visitor cong: sum.case_cong)
  then show "createVisit e st (rq\<lparr>rq_visitor := Some v\<rparr>) = createVisit e st (rq\<lparr>rq_visitor := Some v'\<rparr>)"
    by (simp only: createVisit_def)
qed

theorem createVisit_visitor_unchecked_witness:
  "rq_visitor (sample_req (Some \<lparr>vf_name = Absent, vf_email = Absent, vf_phone = Absent,
        vf_company = Absent\<rparr>) (JStr ''e-1'') Absent)
     = Some \<lparr>vf_name = Absent, vf_email = Absent, vf_phone = Absent, vf_company = Absent\<rparr>
   \<and> (\<forall>s. \<not> fails sample_env s)
   \<and> normalize_executive sample_env (sample_store True [])
        (rq_executive_id (sample_req (Some \<lparr>vf_name = Absent, vf_email = Absent,
           vf_phone = Absent, vf_company = Absent\<rparr>) (JStr ''e-1'') Absent))
       = Inr (JStr (ex_id (sample_executive True)))
   \<and> sample_executive True \<in> set (executives (sample_store True []))
   \<and> list_ex (\<lambda>u. ex_user_id (sample_executive True) = us_id u) (users (sample_store True []))
   \<and> new_visit_id sample_env \<notin> vis_id ` set (visits (sample_store True []))
   \<and> (\<exists>r st' vid. createVisit sample_env (sample_store True [])
          (sample_req (Some \<lparr>vf_name = Absent, vf_email = Absent, vf_phone = Absent,
             vf_company = Absent\<rparr>) (JStr ''e-1'') Absent) = (Some r, st')
        \<and> status r = 201
        \<and> (\<exists>p\<in>set (visitors st'). vr_id p = vid \<and> vr_full_name p = None \<and> vr_email p = None
              \<and> vr_phone p = None \<and> vr_company p = None))
   \<and> rq_visitor (sample_req None (JStr ''e-1'') Absent) = None \<and> \<not> fails sample_env Rollback
   \<and> createVisit sample_env (sample_store True []) (sample_req None (JStr ''e-1'') Absent)
       = (Some ((reply 500)\<lparr>error := Some ''Failed to create visit'',
                  details := Some (TypeError ''phone'')\<rparr>), sample_store True [])"
proof -
  let ?v = "\<lparr>vf_name = Absent, vf_email = Absent, vf_phone = Absent, vf_company = Absent\<rparr>"
  let ?rq = "sample_req (Some ?v) (JStr ''e-1'') Absent"
  let ?rn = "sample_req None (JStr ''e-1'') Absent"
  let ?S = "sample_store True []"
  have g: "rq_visitor ?rq = Some ?v \<and> (\<forall>s. \<not> fails sample_env s)
      \<and> normalize_executive sample_env ?S (rq_executive_id ?rq)
           = Inr (JStr (ex_id (sample_executive True)))
      \<and> sample_executive True \<in> set (executives ?S)
      \<and> list_ex (\<lambda>u. ex_user_id (sample_executive True) = us_id u) (users ?S)
      \<and> new_visit_id sample_env \<notin> vis_id ` set (visits ?S)"
    by (simp add: sample_req_def sample_env_def normalize_executive_def sample_store_def
        sample_executive_def sample_user_def)
  have h: "rq_visitor ?rn = None \<and> \<not> fails sample_env Rollback \<and> \<not> fails sample_env Begin"
    by (simp add: sample_req_def sample_env_def)
  have n: "\<exists>x. normalize_executive sample_env ?S (rq_executive_id ?rn) = Inr x"
    by (simp add: normalize_executive_def sample_req_def)
  note t1 = createVisit_visitor_unchecked [where rq = ?rq and e = sample_env and st = ?S
      and v = ?v and v' = ?v]
  note t2 = createVisit_visitor_unchecked [where rq = ?rn and e = sample_env and st = ?S
      and v = ?v and v' = ?v]
  from t1 have "\<forall>w x. rq_visitor ?rq = Some w \<and> (\<forall>s. \<not> fails sample_env s)
         \<and> normalize_executive sample_env ?S (rq_executive_id ?rq) = Inr (JStr (ex_id x))
         \<and> x \<in> set (executives ?S) \<and> list_ex (\<lambda>u. ex_user_id x = us_id u) (users ?S)
         \<and> new_visit_id sample_env \<notin> vis_id ` set (visits ?S) \<longrightarrow>
       (\<exists>r st' vid. createVisit sample_env ?S ?rq = (Some r, st') \<and> status r = 201
           \<and> visits st' = visits ?S @ [new_visit sample_env ?rq vid (JStr (ex_id x))]
           \<and> (\<exists>p\<in>set (visitors st'). vr_id p = vid
                \<and> vr_full_name p = to_sql (vf_name w) \<and> vr_email p = to_sql (vf_email w)
                \<and> vr_phone p = to_sql (vf_phone w) \<and> vr_company p = to_sql (vf_company w)))"
    by blast
  from this [rule_format, of ?v "sample_executive True"] g
  have c1: "\<exists>r st' vid. createVisit sample_env ?S ?rq = (Some r, st') \<and> status r = 201
        \<and> (\<exists>p\<in>set (visitors st'). vr_id p = vid \<and> vr_full_name p = None \<and> vr_email p = None
              \<and> vr_phone p = None \<and> vr_company p = None)"
    by simp blast
  from t2 h n have "\<exists>err. createVisit sample_env ?S ?rn
          = (Some ((reply 500)\<lparr>error := Some ''Failed to create visit'', details := Some err\<rparr>), ?S)
        \<and> err = TypeError ''phone''"
    by blast
  then have c2: "createVisit sample_env ?S ?rn
       = (Some ((reply 500)\<lparr>error := Some ''Failed to create visit'',
                  details := Some (TypeError ''phone'')\<rparr>), ?S)"
    by blast
  from g h c1 c2 show ?thesis by blast
qed

text \<open>
  C10 (as stated, refuted). An array is neither a number nor a string, yet it has an
  \<^verbatim>\<open>includes\<close> method: with \<^verbatim>\<open>executive_id = []\<close> nothing throws, the id counts as a
  legacy id, the first executive is substituted and the call answers 201.
\<close>

theorem createVisit_array_executive_counterexample:
  "map_option status (fst (createVisit sample_env (sample_store True [])
      (sample_req (Some (sample_fields (Text ''Bob''))) (JArr []) Absent))) = Some 201
   \<and> map executive_id (visits (snd (createVisit sample_env (sample_store True [])
      (sample_req (Some (sample_fields (Text ''Bob''))) (JArr []) Absent)))) = [JStr ''e-1'']"
  by code_simp

text \<open>
  C10 (amended). When executive_id is missing, \<^verbatim>\<open>null\<close>, a boolean or an object, and
  \<^verbatim>\<open>BEGIN\<close> and \<^verbatim>\<open>ROLLBACK\<close> are accepted, the shape test throws a TypeError: the call
  answers 500 "Failed to create visit" with that TypeError as detail (not "No executives
  found"), and the store is as before.
\<close>

theorem createVisit_bad_executive_type:
  assumes "rq_executive_id rq = JUndefined \<or> rq_executive_id rq = JNull
         \<or> (\<exists>b. rq_executive_id rq = JBool b) \<or> (\<exists>kvs. rq_executive_id rq = JObj kvs)"
    and "\<not> fails e Begin" and "\<not> fails e Rollback"
  shows "createVisit e st rq
       = (Some ((reply 500)\<lparr>error := Some ''Failed to create visit'',
                  details := Some (TypeError ''includes'')\<rparr>), st)"
proof -
  from assms(1) have "is_legacy_id (rq_executive_id rq) = Inl (TypeError ''includes'')"
    by auto
  then have "create_txn e st rq = Inl (TypeError ''includes'')"
    using assms(2) by (simp add: create_txn_def normalize_executive_def query_def)
  then show ?thesis using assms(3) by (simp add: createVisit_def create_failed_cases)
qed

theorem createVisit_bad_executive_type_witness:
  "(rq_executive_id (sample_req (Some (sample_fields (Text ''Bob''))) JUndefined Absent) = JUndefined
     \<or> rq_executive_id (sample_req (Some (sample_fields (Text ''Bob''))) JUndefined Absent) = JNull)
   \<and> \<not> fails sample_env Begin \<and> \<not> fails sample_env Rollback
   \<and> createVisit sample_env (sample_store True [])
        (sample_req (Some (sample_fields (Text ''Bob''))) JUndefined Absent)
       = (Some ((reply 500)\<lparr>error := Some ''Failed to create visit'',
                  details := Some (TypeError ''includes'')\<rparr>), sample_store True [])"
proof -
  let ?rq = "sample_req (Some (sample_fields (Text ''Bob''))) JUndefined Absent"
  have h1: "rq_executive_id ?rq = JUndefined" by (simp add: sample_req_def)
  then have h1': "rq_executive_id ?rq = JUndefined \<or> rq_executive_id ?rq = JNull
         \<or> (\<exists>b. rq_executive_id ?rq = JBool b) \<or> (\<exists>kvs. rq_executive_id ?rq = JObj kvs)"
    by simp
  have h2: "\<not> fails sample_env Begin" and h3: "\<not> fails sample_env Rollback"
    by (simp_all add: sample_env_def)
  from createVisit_bad_executive_type [OF h1' h2 h3, of "sample_store True []"] h1 h2 h3
  show ?thesis by simp
qed

subsection \<open>Updating a visit\<close>

lemma update_fields_empty_iff:
  "update_fields b = [] \<longleftrightarrow>
     b ''approval'' = Absent \<and> b ''approvedAt'' = Absent \<and> b ''status'' = Absent
     \<and> b ''rejection_reason'' = Absent"
  by (simp add: update_fields_def provided_def)

lemma fold_set_column_shape:
  "\<exists>a p s r. fold set_column fs v
     = v\<lparr>approval_status := a, approved_at := p, visit_status := s, rejection_reason := r\<rparr>"
proof (induction fs arbitrary: v)
  case Nil
  have "v = v\<lparr>approval_status := approval_status v, approved_at := approved_at v,
      visit_status := visit_status v, rejection_reason := rejection_reason v\<rparr>" by simp
  then show ?case by (metis fold_simps(1))
next
  case (Cons f fs)
  obtain c x where f: "f = (c, x)" by (cases f)
  from Cons [of "set_column f v"] obtain a p s r where
    "fold set_column fs (set_column f v) = (set_column f v)\<lparr>approval_status := a, approved_at := p,
       visit_status := s, rejection_reason := r\<rparr>" by blast
  then have "fold set_column (f # fs) v = v\<lparr>approval_status := a, approved_at := p,
       visit_status := s, rejection_reason := r\<rparr>"
    unfolding f by (cases c) simp_all
  then show ?case by blast
qed

lemma apply_update_shape:
  "\<exists>a p s r u. apply_update e fs i v
     = v\<lparr>approval_status := a, approved_at := p, visit_status := s, rejection_reason := r,
         updated_at := u\<rparr>"
proof (cases "vis_id v = i")
  case True
  from fold_set_column_shape [of fs v] obtain a p s r where
    "fold set_column fs v
     = v\<lparr>approval_status := a, approved_at := p, visit_status := s, rejection_reason := r\<rparr>"
    by blast
  with True have "apply_update e fs i v
     = v\<lparr>approval_status := a, approved_at := p, visit_status := s, rejection_reason := r,
         updated_at := now e\<rparr>" by (simp add: apply_update_def)
  then show ?thesis by blast
next
  case False
  have "v = v\<lparr>approval_status := approval_status v, approved_at := approved_at v,
      visit_status := visit_status v, rejection_reason := rejection_reason v,
      updated_at := updated_at v\<rparr>" by simp
  with False show ?thesis unfolding apply_update_def by (metis (full_types))
qed

lemma apply_update_id: "vis_id (apply_update e fs i v) = vis_id v"
proof -
  from apply_update_shape [of e fs i v] obtain a p s r u where
    "apply_update e fs i v
     = v\<lparr>approval_status := a, approved_at := p, visit_status := s, rejection_reason := r,
         updated_at := u\<rparr>" by blast
  then show ?thesis by simp
qed

lemma apply_update_time:
  "vis_id (apply_update e fs i v) = i \<Longrightarrow> updated_at (apply_update e fs i v) = now e"
  unfolding apply_update_id by (simp add: apply_update_def)

lemma updated_rows_time:
  assumes "r \<in> set (map (apply_update e fs i) vs)" and "vis_id r = i"
  shows "updated_at r = now e"
proof -
  from assms(1) obtain x where x: "r = apply_update e fs i x" by auto
  from assms(2) show ?thesis unfolding x by (rule apply_update_time)
qed

lemma updateVisit_store:
  "snd (updateVisit e st i b) = st \<or>
   snd (updateVisit e st i b) = st\<lparr>visits := map (apply_update e (update_fields b) i) (visits st)\<rparr>"
  by (simp add: updateVisit_def Let_def query_def split: list.splits)

text \<open>
  C6. If none of approval, approvedAt, status and rejection_reason is provided,
  updateVisit answers 400 "No valid fields to update" and the store, update timestamps
  included, is untouched. If at least one is provided, the statement is accepted and a
  visit with the id exists, the answer is 200 with a row of that id whose
  \<^verbatim>\<open>updated_at\<close> is the time of the call, and so is every row of that id in the store.
\<close>

theorem updateVisit_timestamp:
  "(b ''approval'' = Absent \<and> b ''approvedAt'' = Absent \<and> b ''status'' = Absent
      \<and> b ''rejection_reason'' = Absent \<longrightarrow>
      updateVisit e st i b = ((reply 400)\<lparr>error := Some ''No valid fields to update''\<rparr>, st))
   \<and> (\<not> (b ''approval'' = Absent \<and> b ''approvedAt'' = Absent \<and> b ''status'' = Absent
           \<and> b ''rejection_reason'' = Absent)
        \<and> \<not> fails e UpdateVisit \<and> i \<in> vis_id ` set (visits st) \<longrightarrow>
      (\<exists>r. fst (updateVisit e st i b) = (reply 200)\<lparr>success := Some True, payload := Some r\<rparr>
           \<and> vis_id r = i \<and> updated_at r = now e)
      \<and> (\<forall>v\<in>set (visits (snd (updateVisit e st i b))). vis_id v = i \<longrightarrow> updated_at v = now e))"
proof (intro conjI impI)
  assume "b ''approval'' = Absent \<and> b ''approvedAt'' = Absent \<and> b ''status'' = Absent
      \<and> b ''rejection_reason'' = Absent"
  then have "update_fields b = []" by (simp add: update_fields_empty_iff)
  then show "updateVisit e st i b = ((reply 400)\<lparr>error := Some ''No valid fields to update''\<rparr>, st)"
    by (simp add: updateVisit_def)
next
  assume a: "\<not> (b ''approval'' = Absent \<and> b ''approvedAt'' = Absent \<and> b ''status'' = Absent
           \<and> b ''rejection_reason'' = Absent)
        \<and> \<not> fails e UpdateVisit \<and> i \<in> vis_id ` set (visits st)"
  let ?vs = "map (apply_update e (update_fields b) i) (visits st)"
  from a have ne: "update_fields b \<noteq> []" by (simp add: update_fields_empty_iff)
  from a obtain v where v: "v \<in> set (visits st)" "vis_id v = i" by auto
  then have "apply_update e (update_fields b) i v \<in> set (filter (\<lambda>v. vis_id v = i) ?vs)"
    by (simp add: apply_update_id)
  then obtain r rs where rows: "filter (\<lambda>v. vis_id v = i) ?vs = r # rs"
    by (cases "filter (\<lambda>v. vis_id v = i) ?vs") auto
  then have "r \<in> set (filter (\<lambda>v. vis_id v = i) ?vs)" by simp
  then have r: "vis_id r = i \<and> updated_at r = now e"
    using updated_rows_time [of r e "update_fields b" i "visits st"] by simp
  have res: "updateVisit e st i b
      = ((reply 200)\<lparr>success := Some True, payload := Some r\<rparr>, st\<lparr>visits := ?vs\<rparr>)"
    using a ne rows by (simp add: updateVisit_def query_def)
  have "fst (updateVisit e st i b) = (reply 200)\<lparr>success := Some True, payload := Some r\<rparr>"
    unfolding res by simp
  with r show "\<exists>r. fst (updateVisit e st i b) = (reply 200)\<lparr>success := Some True, payload := Some r\<rparr>
           \<and> vis_id r = i \<and> updated_at r = now e"
    by blast
  show "\<forall>v\<in>set (visits (snd (updateVisit e st i b))). vis_id v = i \<longrightarrow> updated_at v = now e"
    unfolding res using updated_rows_time [of _ e "update_fields b" i "visits st"] by simp
qed

theorem updateVisit_timestamp_witness:
  "\<not> (body_of [(''approval'', Text ''approved'')] ''approval'' = Absent
        \<and> body_of [(''approval'', Text ''approved'')] ''approvedAt'' = Absent
        \<and> body_of [(''approval'', Text ''approved'')] ''status'' = Absent
        \<and> body_of [(''approval'', Text ''approved'')] ''rejection_reason'' = Absent)
   \<and> \<not> fails sample_env UpdateVisit
   \<and> ''v-1'' \<in> vis_id ` set (visits (sample_store True [sample_visit ''GC-2025-000007'' 20200 ''scheduled'']))
   \<and> map updated_at (visits (snd (updateVisit sample_env
            (sample_store True [sample_visit ''GC-2025-000007'' 20200 ''scheduled'']) ''v-1''
            (body_of [(''approval'', Text ''approved'')]))))
       = [now sample_env]
   \<and> map updated_at (visits (sample_store True [sample_visit ''GC-2025-000007'' 20200 ''scheduled''])) = [0]
   \<and> now sample_env \<noteq> 0"
proof -
  let ?b = "body_of [(''approval'', Text ''approved'')]"
  let ?S = "sample_store True [sample_visit ''GC-2025-000007'' 20200 ''scheduled'']"
  have h1: "\<not> (?b ''approval'' = Absent \<and> ?b ''approvedAt'' = Absent \<and> ?b ''status'' = Absent
        \<and> ?b ''rejection_reason'' = Absent)"
    by (simp add: body_of_def)
  have h2: "\<not> fails sample_env UpdateVisit" by (simp add: sample_env_def)
  have h3: "''v-1'' \<in> vis_id ` set (visits ?S)" by (simp add: sample_store_def sample_visit_def)
  have h4: "map updated_at (visits ?S) = [0] \<and> now sample_env \<noteq> 0"
    by (simp add: sample_store_def sample_visit_def sample_env_def)
  have ids: "map vis_id (visits (snd (updateVisit sample_env ?S ''v-1'' ?b))) = [''v-1'']"
    by code_simp
  from updateVisit_timestamp [of ?b e st i for e st i, of sample_env ?S "''v-1''"] h1 h2 h3
  have "\<forall>v\<in>set (visits (snd (updateVisit sample_env ?S ''v-1'' ?b))).
         vis_id v = ''v-1'' \<longrightarrow> updated_at v = now sample_env"
    by blast
  with ids have "map updated_at (visits (snd (updateVisit sample_env ?S ''v-1'' ?b)))
      = [now sample_env]"
    by (cases "visits (snd (updateVisit sample_env ?S ''v-1'' ?b))") auto
  with h1 h2 h3 h4 show ?thesis by blast
qed

text \<open>
  C9. updateVisit reads the keys approval, approvedAt, status and rejection_reason only:
  two bodies that agree on them give the same response and store, and a body with none
  of them is answered 400 with the store untouched. Whatever the body, visitors,
  executives and users are unchanged, no visit row is added or removed, and each visit
  row differs from the former one at most in \<^verbatim>\<open>approval_status\<close>, \<^verbatim>\<open>approved_at\<close>,
  \<^verbatim>\<open>visit_status\<close>, \<^verbatim>\<open>rejection_reason\<close> and \<^verbatim>\<open>updated_at\<close>.
\<close>

theorem updateVisit_frame:
  "(b ''approval'' = b' ''approval'' \<and> b ''approvedAt'' = b' ''approvedAt''
      \<and> b ''status'' = b' ''status'' \<and> b ''rejection_reason'' = b' ''rejection_reason'' \<longrightarrow>
      updateVisit e st i b = updateVisit e st i b')
   \<and> (b ''approval'' = Absent \<and> b ''approvedAt'' = Absent \<and> b ''status'' = Absent
        \<and> b ''rejection_reason'' = Absent \<longrightarrow>
      updateVisit e st i b = ((reply 400)\<lparr>error := Some ''No valid fields to update''\<rparr>, st))
   \<and> visitors (snd (updateVisit e st i b)) = visitors st
   \<and> executives (snd (updateVisit e st i b)) = executives st
   \<and> users (snd (updateVisit e st i b)) = users st
   \<and> list_all2
        (\<lambda>v v'. \<exists>a p s r u. v' = v\<lparr>approval_status := a, approved_at := p, visit_status := s,
                              rejection_reason := r, updated_at := u\<rparr>)
        (visits st) (visits (snd (updateVisit e st i b)))"
proof -
  have same: "v = v\<lparr>approval_status := approval_status v, approved_at := approved_at v,
      visit_status := visit_status v, rejection_reason := rejection_reason v,
      updated_at := updated_at v\<rparr>" for v :: visit_row
    by simp
  have keep: "list_all2
        (\<lambda>v v'. \<exists>a p s r u. v' = v\<lparr>approval_status := a, approved_at := p, visit_status := s,
                              rejection_reason := r, updated_at := u\<rparr>) vs vs" for vs :: "visit_row list"
    by (rule list_all2_refl) (metis same)
  have change: "list_all2
        (\<lambda>v v'. \<exists>a p s r u. v' = v\<lparr>approval_status := a, approved_at := p, visit_status := s,
                              rejection_reason := r, updated_at := u\<rparr>)
        vs (map (apply_update e fs i) vs)" for vs fs
    by (induction vs) (simp_all add: apply_update_shape)
  have agree: "update_fields b = update_fields b'"
    if "b ''approval'' = b' ''approval'' \<and> b ''approvedAt'' = b' ''approvedAt''
      \<and> b ''status'' = b' ''status'' \<and> b ''rejection_reason'' = b' ''rejection_reason''"
    using that by (simp add: update_fields_def provided_def)
  have c1: "b ''approval'' = b' ''approval'' \<and> b ''approvedAt'' = b' ''approvedAt''
      \<and> b ''status'' = b' ''status'' \<and> b ''rejection_reason'' = b' ''rejection_reason'' \<longrightarrow>
      updateVisit e st i b = updateVisit e st i b'"
    using agree by (simp add: updateVisit_def)
  have c2: "b ''approval'' = Absent \<and> b ''approvedAt'' = Absent \<and> b ''status'' = Absent
        \<and> b ''rejection_reason'' = Absent \<longrightarrow>
      updateVisit e st i b = ((reply 400)\<lparr>error := Some ''No valid fields to update''\<rparr>, st)"
    by (simp add: updateVisit_def update_fields_empty_iff [symmetric])
  from updateVisit_store [of e st i b]
  have c3: "visitors (snd (updateVisit e st i b)) = visitors st
   \<and> executives (snd (updateVisit e st i b)) = executives st
   \<and> users (snd (updateVisit e st i b)) = users st"
    by auto
  from updateVisit_store [of e st i b]
  have c4: "list_all2
        (\<lambda>v v'. \<exists>a p s r u. v' = v\<lparr>approval_status := a, approved_at := p, visit_status := s,
                              rejection_reason := r, updated_at := u\<rparr>)
        (visits st) (visits (snd (updateVisit e st i b)))"
  proof
    assume "snd (updateVisit e st i b) = st"
    then show ?thesis using keep [of "visits st"] by simp
  next
    assume "snd (updateVisit e st i b)
      = st\<lparr>visits := map (apply_update e (update_fields b) i) (visits st)\<rparr>"
    then show ?thesis using change [of "visits st" "update_fields b"] by simp
  qed
  from c1 c2 c3 c4 show ?thesis by blast
qed

theorem updateVisit_frame_witness:
  "body_of [(''visit_code'', Text ''GC-0'')] ''approval'' = Absent
   \<and> body_of [(''visit_code'', Text ''GC-0'')] ''approvedAt'' = Absent
   \<and> body_of [(''visit_code'', Text ''GC-0'')] ''status'' = Absent
   \<and> body_of [(''visit_code'', Text ''GC-0'')] ''rejection_reason'' = Absent
   \<and> updateVisit sample_env
        (sample_store True [sample_visit ''GC-2025-000007'' 20200 ''scheduled'']) ''v-1''
        (body_of [(''visit_code'', Text ''GC-0'')])
      = ((reply 400)\<lparr>error := Some ''No valid fields to update''\<rparr>,
         sample_store True [sample_visit ''GC-2025-000007'' 20200 ''scheduled''])"
proof -
  let ?b = "body_of [(''visit_code'', Text ''GC-0'')]"
  let ?S = "sample_store True [sample_visit ''GC-2025-000007'' 20200 ''scheduled'']"
  have h: "?b ''approval'' = Absent \<and> ?b ''approvedAt'' = Absent \<and> ?b ''status'' = Absent
        \<and> ?b ''rejection_reason'' = Absent"
    by (simp add: body_of_def)
  from updateVisit_frame [of ?b ?b sample_env ?S "''v-1''"] h
  have "updateVisit sample_env ?S ''v-1'' ?b
      = ((reply 400)\<lparr>error := Some ''No valid fields to update''\<rparr>, ?S)"
    by blast
  with h show ?thesis by blast
qed

subsection \<open>Check-in\<close>

text \<open>
  C8 (as stated, refuted). A visit checked in at time 1000 has status
  \<^verbatim>\<open>checked_in\<close>; a second check-in at time 2000 overwrites the check-in time.
\<close>

theorem checkIn_overwrites_counterexample:
  "map actual_checkin_time (visits (snd (checkIn (sample_env\<lparr>now := 1000\<rparr>)
       (sample_store True [sample_visit ''GC-2025-000007'' 20200 ''scheduled'']) ''v-1'')))
     = [Some 1000]
   \<and> map visit_status (visits (snd (checkIn (sample_env\<lparr>now := 1000\<rparr>)
       (sample_store True [sample_visit ''GC-2025-000007'' 20200 ''scheduled'']) ''v-1'')))
     = [Some ''checked_in'']
   \<and> map actual_checkin_time (visits (snd (checkIn (sample_env\<lparr>now := 2000\<rparr>)
       (snd (checkIn (sample_env\<lparr>now := 1000\<rparr>)
          (sample_store True [sample_visit ''GC-2025-000007'' 20200 ''scheduled'']) ''v-1''))
       ''v-1'')))
     = [Some 2000]"
  by code_simp

text \<open>
  C8 (amended). When the statement is accepted, checkIn sets \<^verbatim>\<open>visit_status\<close> to
  \<^verbatim>\<open>checked_in\<close> and \<^verbatim>\<open>actual_checkin_time\<close> to the time of the call on every row with
  the id, whatever its former status and check-in time, leaves every other row as it
  was, and answers 200 if a row has the id and 404 otherwise.
\<close>

theorem checkIn_unconditional:
  assumes "\<not> fails e UpdateCheckin"
  shows "visitors (snd (checkIn e st i)) = visitors st
       \<and> length (visits (snd (checkIn e st i))) = length (visits st)
       \<and> (\<forall>n<length (visits st).
            visits (snd (checkIn e st i)) ! n =
              (if vis_id (visits st ! n) = i
               then (visits st ! n)\<lparr>visit_status := Some ''checked_in'',
                                     actual_checkin_time := Some (now e)\<rparr>
               else visits st ! n))
       \<and> status (fst (checkIn e st i)) = (if i \<in> vis_id ` set (visits st) then 200 else 404)"
proof -
  let ?vs = "map (set_checkin e i) (visits st)"
  have ids: "filter (\<lambda>v. vis_id v = i) ?vs = map (set_checkin e i) (filter (\<lambda>v. vis_id v = i) (visits st))"
    by (induction "visits st" arbitrary: st) (simp_all add: filter_map comp_def set_checkin_def)
  have st: "snd (checkIn e st i) = st\<lparr>visits := ?vs\<rparr>"
    using assms by (simp add: checkIn_def query_def split: list.splits)
  have code: "status (fst (checkIn e st i)) = (if i \<in> vis_id ` set (visits st) then 200 else 404)"
  proof (cases "filter (\<lambda>v. vis_id v = i) (visits st)")
    case Nil
    then have "i \<notin> vis_id ` set (visits st)" by (auto simp: filter_empty_conv)
    with Nil assms show ?thesis by (simp add: checkIn_def query_def ids reply_def)
  next
    case (Cons a as)
    then have "a \<in> set (filter (\<lambda>v. vis_id v = i) (visits st))" by simp
    then have "i \<in> vis_id ` set (visits st)" by auto
    with Cons assms show ?thesis by (simp add: checkIn_def query_def ids reply_def)
  qed
  show ?thesis unfolding st using code [unfolded st] by (simp add: set_checkin_def)
qed

theorem checkIn_unconditional_witness:
  "\<not> fails sample_env UpdateCheckin
   \<and> visits (snd (checkIn sample_env
        (sample_store True [sample_visit ''GC-2025-000007'' 20200 ''checked_out'']) ''v-1'')) ! 0
     = (sample_visit ''GC-2025-000007'' 20200 ''checked_out'')
         \<lparr>visit_status := Some ''checked_in'', actual_checkin_time := Some (now sample_env)\<rparr>
   \<and> status (fst (checkIn sample_env
        (sample_store True [sample_visit ''GC-2025-000007'' 20200 ''checked_out'']) ''v-1'')) = 200"
proof -
  let ?S = "sample_store True [sample_visit ''GC-2025-000007'' 20200 ''checked_out'']"
  have h: "\<not> fails sample_env UpdateCheckin" by (simp add: sample_env_def)
  have v: "visits ?S = [sample_visit ''GC-2025-000007'' 20200 ''checked_out'']
      \<and> vis_id (sample_visit ''GC-2025-000007'' 20200 ''checked_out'') = ''v-1''"
    by (simp add: sample_store_def sample_visit_def)
  from checkIn_unconditional [OF h, of ?S "''v-1''"] v h show ?thesis by simp
qed

end
